theory Spec2Isabelle
  imports Complex_Main "HOL-Library.Word"
begin

section \<open>Hub configuration (hub/config.go)\<close>

subsection \<open>Keys, aliases and the ignored set\<close>

definition ConfigHubName :: string where "ConfigHubName = ''hub.name''"
definition ConfigHubDesc :: string where "ConfigHubDesc = ''hub.desc''"
definition ConfigHubTopic :: string where "ConfigHubTopic = ''hub.topic''"
definition ConfigHubOwner :: string where "ConfigHubOwner = ''hub.owner''"
definition ConfigHubWebsite :: string where "ConfigHubWebsite = ''hub.website''"
definition ConfigHubEmail :: string where "ConfigHubEmail = ''hub.email''"
definition ConfigBotName :: string where "ConfigBotName = ''bot.name''"
definition ConfigBotDesc :: string where "ConfigBotDesc = ''bot.desc''"
definition ConfigHubMOTD :: string where "ConfigHubMOTD = ''hub.motd''"
definition ConfigHubPrivate :: string where "ConfigHubPrivate = ''hub.private''"
definition ConfigChatGlobalEnabled :: string where
  "ConfigChatGlobalEnabled = ''chat.global.enabled''"
definition ConfigZlibLevel :: string where "ConfigZlibLevel = ''zlib.level''"
definition ConfigNMDCRedirectTLS :: string where "ConfigNMDCRedirectTLS = ''nmdc.redirect.tls''"
definition ConfigNMDCRedirectADC :: string where "ConfigNMDCRedirectADC = ''nmdc.redirect.adc''"
definition ConfigADCRedirectTLS :: string where "ConfigADCRedirectTLS = ''adc.redirect.tls''"

definition configAliases :: "string \<rightharpoonup> string" where
  "configAliases = map_of
     [(''name'', ConfigHubName),
      (''desc'', ConfigHubDesc),
      (''topic'', ConfigHubTopic),
      (''owner'', ConfigHubOwner),
      (''website'', ConfigHubWebsite),
      (''email'', ConfigHubEmail),
      (''botname'', ConfigBotName),
      (''botdesc'', ConfigBotDesc),
      (''motd'', ConfigHubMOTD),
      (''private'', ConfigHubPrivate)]"

text \<open>The keys that can only be set in the config file.\<close>

definition configIgnoredKeys :: "string list" where
  "configIgnoredKeys =
     [''chat.encoding'', ''chat.log.join'', ''chat.log.max'', ''database.path'',
      ''database.type'', ''plugins.path'', ''serve.host'', ''serve.port'',
      ''serve.tls.cert'', ''serve.tls.key'', ConfigHubPrivate]"

definition configIgnored :: "string \<Rightarrow> bool" where
  "configIgnored key = (key \<in> set configIgnoredKeys)"

text \<open>The fixed part of the list \<open>ConfigKeys\<close> returns: the built-in typed keys.\<close>

definition builtinKeys :: "string list" where
  "builtinKeys =
     [ConfigHubName, ConfigHubDesc, ConfigHubTopic, ConfigHubMOTD, ConfigHubOwner,
      ConfigHubWebsite, ConfigHubEmail, ConfigBotName, ConfigBotDesc, ConfigHubPrivate,
      ConfigChatGlobalEnabled, ConfigZlibLevel, ConfigNMDCRedirectTLS,
      ConfigNMDCRedirectADC, ConfigADCRedirectTLS]"

subsection \<open>Values and the hub's configuration state\<close>

text \<open>
  A value of Go's \<open>interface{}\<close> as \<open>setConfig\<close> distinguishes it by dynamic type.
  \<open>int\<close> and \<open>uint\<close> are 64 bits wide; a float is modelled by the real number it
  denotes; \<open>GOther\<close> stands for a value of any other dynamic type.
\<close>

type_synonym float64 = real
type_synonym float32 = real

datatype go_val =
    GBool bool
  | GString string
  | GInt "64 word"
  | GInt64 "64 word"
  | GInt32 "32 word"
  | GUint "64 word"
  | GUint64 "64 word"
  | GUint32 "32 word"
  | GFloat64 float64
  | GFloat32 float32
  | GOther string

text \<open>
  The hub as the configuration code sees it: the generic map \<open>h.conf.m\<close> (\<open>None\<close> is
  Go's nil map) and everything else, \<open>typed_fields\<close>, which only the typed setters and getters
  touch.
\<close>

record 'f hub =
  typed_fields :: 'f
  conf_m :: "(string \<rightharpoonup> go_val) option"

text \<open>
  The typed setters and getters live in another file of the hub package; the
  configuration code is modelled for any implementation of them.
\<close>

record 'f typed =
  setName :: "string \<Rightarrow> 'f hub \<Rightarrow> 'f hub"
  setDesc :: "string \<Rightarrow> 'f hub \<Rightarrow> 'f hub"
  setTopic :: "string \<Rightarrow> 'f hub \<Rightarrow> 'f hub"
  setMOTD :: "string \<Rightarrow> 'f hub \<Rightarrow> 'f hub"
  setOwner :: "string \<Rightarrow> 'f hub \<Rightarrow> 'f hub"
  setWebsite :: "string \<Rightarrow> 'f hub \<Rightarrow> 'f hub"
  setEmail :: "string \<Rightarrow> 'f hub \<Rightarrow> 'f hub"
  setBotName :: "string \<Rightarrow> 'f hub \<Rightarrow> 'f hub"
  setBotDesc :: "string \<Rightarrow> 'f hub \<Rightarrow> 'f hub"
  setGlobalChatEnabled :: "bool \<Rightarrow> 'f hub \<Rightarrow> 'f hub"
  setRedirectNMDCToTLS :: "bool \<Rightarrow> 'f hub \<Rightarrow> 'f hub"
  setRedirectNMDCToADC :: "bool \<Rightarrow> 'f hub \<Rightarrow> 'f hub"
  setRedirectADCToTLS :: "bool \<Rightarrow> 'f hub \<Rightarrow> 'f hub"
  setZlibLevel :: "64 word \<Rightarrow> 'f hub \<Rightarrow> 'f hub"
  getName :: "'f hub \<Rightarrow> string"
  getDesc :: "'f hub \<Rightarrow> string"
  getTopic :: "'f hub \<Rightarrow> string"
  getMOTD :: "'f hub \<Rightarrow> string"
  getOwner :: "'f hub \<Rightarrow> string"
  getWebsite :: "'f hub \<Rightarrow> string"
  getEmail :: "'f hub \<Rightarrow> string"
  getBotName :: "'f hub \<Rightarrow> string"
  getBotDesc :: "'f hub \<Rightarrow> string"
  sprint :: "go_val \<Rightarrow> string"

subsection \<open>The generic map\<close>

definition resolveAlias :: "string \<Rightarrow> string" where
  \<comment> \<open>\<open>if alias, ok := configAliases[key]; ok { key = alias }\<close>\<close>
  "resolveAlias key = (case configAliases key of Some alias \<Rightarrow> alias | None \<Rightarrow> key)"

definition saveConfig :: "string \<Rightarrow> go_val \<Rightarrow> 'f hub \<Rightarrow> 'f hub" where
  \<comment> \<open>Returns at once for an ignored key; persisting is not implemented.\<close>
  "saveConfig key val h = (if configIgnored key then h else h)"

definition setConfigMap :: "string \<Rightarrow> go_val \<Rightarrow> 'f hub \<Rightarrow> 'f hub" where
  "setConfigMap key val h =
     (if configIgnored key then h
      else
        let m = (case conf_m h of None \<Rightarrow> Map.empty | Some m \<Rightarrow> m)
        in h\<lparr>conf_m := Some (m(key \<mapsto> val))\<rparr>)"

definition getConfigMap :: "string \<Rightarrow> 'f hub \<Rightarrow> go_val option" where
  \<comment> \<open>\<open>(val, ok)\<close> as an option; reading a nil map finds nothing.\<close>
  "getConfigMap key h = (case conf_m h of None \<Rightarrow> None | Some m \<Rightarrow> m key)"

subsection \<open>Typed mutation\<close>

definition setConfigString :: "'f typed \<Rightarrow> string \<Rightarrow> string \<Rightarrow> 'f hub \<Rightarrow> 'f hub" where
  "setConfigString T key0 val h =
     (let key = resolveAlias key0 in
      if key = ConfigHubName then setName T val h
      else if key = ConfigHubDesc then setDesc T val h
      else if key = ConfigHubTopic then setTopic T val h
      else if key = ConfigHubMOTD then setMOTD T val h
      else if key = ConfigHubOwner then setOwner T val h
      else if key = ConfigHubWebsite then setWebsite T val h
      else if key = ConfigHubEmail then setEmail T val h
      else if key = ConfigBotName then setBotName T val h
      else if key = ConfigBotDesc then setBotDesc T val h
      else setConfigMap key (GString val) h)"

definition SetConfigString :: "'f typed \<Rightarrow> string \<Rightarrow> string \<Rightarrow> 'f hub \<Rightarrow> 'f hub" where
  "SetConfigString T key val h = saveConfig key (GString val) (setConfigString T key val h)"

definition GetConfigString :: "'f typed \<Rightarrow> string \<Rightarrow> 'f hub \<Rightarrow> string \<times> bool" where
  "GetConfigString T key0 h =
     (let key = resolveAlias key0 in
      if key = ConfigHubName then (getName T h, True)
      else if key = ConfigHubDesc then (getDesc T h, True)
      else if key = ConfigHubTopic then (getTopic T h, True)
      else if key = ConfigHubMOTD then (getMOTD T h, True)
      else if key = ConfigHubOwner then (getOwner T h, True)
      else if key = ConfigHubWebsite then (getWebsite T h, True)
      else if key = ConfigHubEmail then (getEmail T h, True)
      else if key = ConfigBotName then (getBotName T h, True)
      else if key = ConfigBotDesc then (getBotDesc T h, True)
      else
        (case getConfigMap key h of
           None \<Rightarrow> ('''', False)
         | Some (GString v) \<Rightarrow> (v, True)
         | Some v \<Rightarrow> (sprint T v, True)))"

definition setConfigBool :: "'f typed \<Rightarrow> string \<Rightarrow> bool \<Rightarrow> 'f hub \<Rightarrow> 'f hub" where
  "setConfigBool T key0 val h =
     (let key = resolveAlias key0 in
      if configIgnored key then h
      else if key = ConfigChatGlobalEnabled then setGlobalChatEnabled T val h
      else if key = ConfigNMDCRedirectTLS then setRedirectNMDCToTLS T val h
      else if key = ConfigNMDCRedirectADC then setRedirectNMDCToADC T val h
      else if key = ConfigADCRedirectTLS then setRedirectADCToTLS T val h
      else setConfigMap key (GBool val) h)"

definition SetConfigBool :: "'f typed \<Rightarrow> string \<Rightarrow> bool \<Rightarrow> 'f hub \<Rightarrow> 'f hub" where
  "SetConfigBool T key val h = saveConfig key (GBool val) (setConfigBool T key val h)"

definition setConfigInt :: "'f typed \<Rightarrow> string \<Rightarrow> 64 word \<Rightarrow> 'f hub \<Rightarrow> 'f hub" where
  "setConfigInt T key0 val h =
     (let key = resolveAlias key0 in
      if configIgnored key then h
      else if key = ConfigZlibLevel then setZlibLevel T val h
      else setConfigMap key (GInt64 val) h)"

definition SetConfigInt :: "'f typed \<Rightarrow> string \<Rightarrow> 64 word \<Rightarrow> 'f hub \<Rightarrow> 'f hub" where
  "SetConfigInt T key val h = saveConfig key (GInt64 val) (setConfigInt T key val h)"

definition setConfigUint :: "'f typed \<Rightarrow> string \<Rightarrow> 64 word \<Rightarrow> 'f hub \<Rightarrow> 'f hub" where
  "setConfigUint T key0 val h =
     (let key = resolveAlias key0 in
      if configIgnored key then h
      else setConfigMap key (GUint64 val) h)"

definition SetConfigUint :: "'f typed \<Rightarrow> string \<Rightarrow> 64 word \<Rightarrow> 'f hub \<Rightarrow> 'f hub" where
  "SetConfigUint T key val h = saveConfig key (GUint64 val) (setConfigUint T key val h)"

definition setConfigFloat :: "'f typed \<Rightarrow> string \<Rightarrow> float64 \<Rightarrow> 'f hub \<Rightarrow> 'f hub" where
  "setConfigFloat T key0 val h =
     (let key = resolveAlias key0 in
      if configIgnored key then h
      else setConfigMap key (GFloat64 val) h)"

definition SetConfigFloat :: "'f typed \<Rightarrow> string \<Rightarrow> float64 \<Rightarrow> 'f hub \<Rightarrow> 'f hub" where
  "SetConfigFloat T key val h = saveConfig key (GFloat64 val) (setConfigFloat T key val h)"

subsection \<open>Untyped mutation\<close>

datatype panic = UnsupportedConfigType go_val

definition setConfig :: "'f typed \<Rightarrow> string \<Rightarrow> go_val \<Rightarrow> bool \<Rightarrow> 'f hub \<Rightarrow> panic + 'f hub" where
  "setConfig T key val save h =
     (if configIgnored key then Inr h
      else
        (case
           (case val of
              GBool b \<Rightarrow> Inr (setConfigBool T key b h)
            | GString s \<Rightarrow> Inr (setConfigString T key s h)
            | GInt i \<Rightarrow> Inr (setConfigInt T key i h)
            | GInt64 i \<Rightarrow> Inr (setConfigInt T key i h)
            | GInt32 i \<Rightarrow> Inr (setConfigInt T key (scast i) h)
            | GUint u \<Rightarrow> Inr (setConfigUint T key u h)
            | GUint64 u \<Rightarrow> Inr (setConfigUint T key u h)
            | GUint32 u \<Rightarrow> Inr (setConfigUint T key (ucast u) h)
            | GFloat64 f \<Rightarrow> Inr (setConfigFloat T key f h)
            | GFloat32 f \<Rightarrow> Inr (setConfigFloat T key f h)
            | GOther t \<Rightarrow> Inl (UnsupportedConfigType val))
         of
           Inl p \<Rightarrow> Inl p
         | Inr h' \<Rightarrow> Inr (if save then saveConfig key val h' else h')))"

definition SetConfig :: "'f typed \<Rightarrow> string \<Rightarrow> go_val \<Rightarrow> 'f hub \<Rightarrow> panic + 'f hub" where
  "SetConfig T key val h = setConfig T key val True h"

text \<open>The keys \<open>setConfigString\<close> and \<open>GetConfigString\<close> dispatch on.\<close>

definition stringKeys :: "string list" where
  "stringKeys =
     [ConfigHubName, ConfigHubDesc, ConfigHubTopic, ConfigHubMOTD, ConfigHubOwner,
      ConfigHubWebsite, ConfigHubEmail, ConfigBotName, ConfigBotDesc]"

text \<open>A concrete instance: setters that do nothing, and a hub with a nil map.\<close>

definition idTyped :: "unit typed" where
  "idTyped =
     \<lparr>setName = (\<lambda>v h. h), setDesc = (\<lambda>v h. h), setTopic = (\<lambda>v h. h), setMOTD = (\<lambda>v h. h),
      setOwner = (\<lambda>v h. h), setWebsite = (\<lambda>v h. h), setEmail = (\<lambda>v h. h),
      setBotName = (\<lambda>v h. h), setBotDesc = (\<lambda>v h. h), setGlobalChatEnabled = (\<lambda>v h. h),
      setRedirectNMDCToTLS = (\<lambda>v h. h), setRedirectNMDCToADC = (\<lambda>v h. h),
      setRedirectADCToTLS = (\<lambda>v h. h), setZlibLevel = (\<lambda>v h. h),
      getName = (\<lambda>h. ''''), getDesc = (\<lambda>h. ''''), getTopic = (\<lambda>h. ''''),
      getMOTD = (\<lambda>h. ''''), getOwner = (\<lambda>h. ''''), getWebsite = (\<lambda>h. ''''),
      getEmail = (\<lambda>h. ''''), getBotName = (\<lambda>h. ''''), getBotDesc = (\<lambda>h. ''''),
      sprint = (\<lambda>v. ''?'')\<rparr>"

definition emptyHub :: "unit hub" where
  "emptyHub = \<lparr>typed_fields = (), conf_m = None\<rparr>"

section \<open>The IRC bridge (package hub)\<close>

subsection \<open>Messages, the connection and the hub\<close>

definition ircHubChan :: string where "ircHubChan = ''#hub''"

record irc_prefix =
  Name :: string
  User :: string
  Host :: string

record irc_message =
  Prefix :: "irc_prefix option"
  Command :: string
  Params :: "string list"

datatype io_error = EOF | IOFailure string

type_synonym hub_error = string

datatype irc_error =
    ExpectedNick io_error
  | ExpectedNickGot irc_message
  | ExpectedUser io_error
  | ExpectedUserGot irc_message
  | HubError hub_error
  | ErrConnInsecure
  | PasswordNotSupported
  | ErrServerIsPrivate
  | IOError io_error
  | ExpectedChannelName irc_message
  | ExpectedJoinHub string
  | InvalidChatCommand irc_message
  | NilPointerPanic

record irc_peer =
  peer_name :: string
  hostPref :: irc_prefix
  ownPref :: irc_prefix
  local_host :: string
  local_port :: string

text \<open>A peer of the roster: an IRC peer, or a peer of another protocol with its name.\<close>

datatype peer = IrcPeer irc_peer | OtherPeer string

record chat_message =
  msg_name :: string
  msg_text :: string

record conn_info =
  Secure :: bool
  TLSVers :: nat

text \<open>What the handler asks the hub to do, in the order it asks.\<close>

datatype event =
    EvReserve string
  | EvUnbind string
  | EvAccept irc_peer
  | EvBroadcastJoin irc_peer "peer list"
  | EvSendChat irc_peer chat_message
  | EvPrivateChat irc_peer peer chat_message
  | EvClose irc_peer

text \<open>
  The handler's view of the world. \<open>inbox\<close> holds the results of the coming calls of
  \<open>ReadMessage\<close> (after the last one the connection is at end of file), \<open>wres\<close> the
  results of the coming calls of \<open>WriteMessage\<close> (after the last one every write
  succeeds), \<open>wlog\<close> the messages handed to \<open>WriteMessage\<close> so far, \<open>hub_st\<close> the state
  of the hub and \<open>events\<close> the calls made to the hub that change it. Deadlines
  are not modelled: a read that runs into its deadline is an error in \<open>inbox\<close>. Nor
  are the counters of connections and the hub's log.
\<close>

record 's world =
  inbox :: "(io_error + irc_message) list"
  wres :: "io_error option list"
  wlog :: "irc_message list"
  hub_st :: 's
  events :: "event list"

text \<open>
  The roster, the user database and the chat engine are other files of the hub package;
  the bridge is modelled for any implementation of them over a hub state \<open>'s\<close>.
  \<open>reserveName\<close> returns the release function, whether the reservation succeeded, and
  the new state; \<open>getUser\<close> returns an error or whether \<open>usr\<close> and \<open>rec\<close> are not nil.
\<close>

record 's hub_ops =
  validateUserName :: "string \<Rightarrow> 's \<Rightarrow> hub_error option"
  nameAvailable :: "string \<Rightarrow> 's \<Rightarrow> bool"
  reserveName :: "string \<Rightarrow> 's \<Rightarrow> (('s \<Rightarrow> 's) \<times> bool) \<times> 's"
  getUser :: "string \<Rightarrow> 's \<Rightarrow> hub_error + (bool \<times> bool)"
  IsPrivate :: "'s \<Rightarrow> bool"
  newBasePeer :: "conn_info \<Rightarrow> 's \<Rightarrow> 's"
  Peers :: "'s \<Rightarrow> peer list"
  acceptPeer :: "irc_peer \<Rightarrow> 's \<Rightarrow> peer list \<times> 's"
  broadcastUserJoin :: "irc_peer \<Rightarrow> peer list \<Rightarrow> 's \<Rightarrow> 's"
  callOnJoined :: "irc_peer \<Rightarrow> 's \<Rightarrow> bool \<times> 's"
  getGlobalChatEnabled :: "'s \<Rightarrow> bool"
  SendChat :: "irc_peer \<Rightarrow> chat_message \<Rightarrow> 's \<Rightarrow> 's"
  PeerByName :: "string \<Rightarrow> 's \<Rightarrow> peer option"
  privateChat :: "irc_peer \<Rightarrow> peer \<Rightarrow> chat_message \<Rightarrow> 's \<Rightarrow> 's"
  peerClose :: "irc_peer \<Rightarrow> 's \<Rightarrow> 's"
  hubName :: "'s \<Rightarrow> string"
  softName :: "'s \<Rightarrow> string"
  softVersion :: "'s \<Rightarrow> string"
  createdDate :: "'s \<Rightarrow> string"
  createdTime :: "'s \<Rightarrow> string"
  errNickTaken :: string

definition ReadMessage :: "'s world \<Rightarrow> (io_error + irc_message) \<times> 's world" where
  "ReadMessage w =
     (case inbox w of
        [] \<Rightarrow> (Inl EOF, w)
      | r # rs \<Rightarrow> (r, w\<lparr>inbox := rs\<rparr>))"

definition WriteMessage :: "irc_message \<Rightarrow> 's world \<Rightarrow> io_error option \<times> 's world" where
  "WriteMessage m w =
     (case wres w of
        [] \<Rightarrow> (None, w\<lparr>wlog := wlog w @ [m]\<rparr>)
      | r # rs \<Rightarrow> (r, w\<lparr>wres := rs, wlog := wlog w @ [m]\<rparr>))"

definition hubCall :: "('s \<Rightarrow> 's) \<Rightarrow> event \<Rightarrow> 's world \<Rightarrow> 's world" where
  \<comment> \<open>A call that changes the hub, with its entry in the log.\<close>
  "hubCall f ev w = w\<lparr>hub_st := f (hub_st w), events := events w @ [ev]\<rparr>"

subsection \<open>The handshake: NICK, USER and the reservation\<close>

definition nickTaken :: "'s hub_ops \<Rightarrow> irc_prefix \<Rightarrow> string \<Rightarrow> irc_message" where
  \<comment> \<open>Numeric 433 with the rejected nick.\<close>
  "nickTaken H pref name =
     \<lparr>Prefix = Some pref, Command = ''433'', Params = [''*'', name, errNickTaken H]\<rparr>"

definition expectUser ::
  "string \<Rightarrow> string \<Rightarrow> 's world \<Rightarrow> (irc_error + string) \<times> 's world" where
  \<comment> \<open>The first time round (\<open>name == ""\<close>) the USER command is expected as well.\<close>
  "expectUser name user w =
     (if name = '''' then
        (case ReadMessage w of
           (Inl err, w') \<Rightarrow> (Inl (ExpectedUser err), w')
         | (Inr m, w') \<Rightarrow>
             if Command m \<noteq> ''USER'' \<or> length (Params m) \<noteq> 4
             then (Inl (ExpectedUserGot m), w')
             else (Inr (Params m ! 0), w'))
      else (Inr user, w))"

function nickLoop ::
  "'s hub_ops \<Rightarrow> irc_prefix \<Rightarrow> string \<Rightarrow> string \<Rightarrow> 's world \<Rightarrow>
     (irc_error + (string \<times> string \<times> ('s \<Rightarrow> 's))) \<times> 's world" where
  "nickLoop H pref name user w =
     (case ReadMessage w of
        (Inl err, w1) \<Rightarrow> (Inl (ExpectedNick err), w1)
      | (Inr m, w1) \<Rightarrow>
          if Command m \<noteq> ''NICK'' \<or> length (Params m) \<noteq> 1
          then (Inl (ExpectedNickGot m), w1)
          else
            let tname = Params m ! 0 in
            (case expectUser name user w1 of
               (Inl e, w2) \<Rightarrow> (Inl e, w2)
             | (Inr user', w2) \<Rightarrow>
                 (case validateUserName H tname (hub_st w2) of
                    Some e \<Rightarrow> (Inl (HubError e), w2)
                  | None \<Rightarrow>
                      if \<not> nameAvailable H tname (hub_st w2)
                      then nickLoop H pref tname user'
                             (snd (WriteMessage (nickTaken H pref tname) w2))
                      else
                        (case reserveName H tname (hub_st w2) of
                           ((unbind, ok), s') \<Rightarrow>
                             if ok
                             then (Inr (tname, user', unbind),
                                   hubCall (\<lambda>_. s') (EvReserve tname) w2)
                             else nickLoop H pref tname user'
                                    (snd (WriteMessage (nickTaken H pref tname)
                                       (w2\<lparr>hub_st := s'\<rparr>)))))))"
  by pat_completeness auto
termination
  by (relation "measure (\<lambda>(H, pref, name, user, w). length (inbox w))")
     (auto simp: ReadMessage_def WriteMessage_def expectUser_def
           split: list.splits if_splits sum.splits prod.splits)

subsection \<open>The handshake: acceptance\<close>

definition welcomeNumerics :: "'s hub_ops \<Rightarrow> 's \<Rightarrow> irc_peer \<Rightarrow> irc_message list" where
  \<comment> \<open>The messages 001 to 005 of \<open>ircAccept\<close>, in the order it writes them.\<close>
  "welcomeNumerics H s p =
     (let vers = softName H s @ ''-'' @ softVersion H s;
          host = local_host p; port = local_port p
      in
      [\<lparr>Prefix = Some (hostPref p), Command = ''001'',
        Params = [peer_name p,
          ''Welcome to the '' @ hubName H s @ '' Internet Relay Chat Network '' @ peer_name p]\<rparr>,
       \<lparr>Prefix = Some (hostPref p), Command = ''002'',
        Params = [peer_name p,
          ''Your host is '' @ host @ ''['' @ host @ ''/'' @ port @ ''], running version '' @ vers]\<rparr>,
       \<lparr>Prefix = Some (hostPref p), Command = ''003'',
        Params = [peer_name p,
          ''This server was created '' @ createdDate H s @ '' at '' @ createdTime H s @ '' UTC'']\<rparr>,
       \<lparr>Prefix = Some (hostPref p), Command = ''004'',
        Params = [peer_name p, host, vers,
          ''DOQRSZaghilopswz'', ''CFILMPQSbcefgijklmnopqrstvz'', ''bkloveqjfI'']\<rparr>,
       \<lparr>Prefix = Some (hostPref p), Command = ''005'',
        Params = [peer_name p,
          ''CHANTYPES=#'', ''EXCEPTS'', ''INVEX'',
          ''CHANMODES=eIbq,k,flj,CFLMPQScgimnprstz'',
          ''CHANLIMIT=#:120'', ''PREFIX=(ov)@+'', ''MAXLIST=bqeI:100'',
          ''MODES=4'', ''NETWORK=freenode'', ''STATUSMSG=@+'',
          ''CALLERID=g'', ''CASEMAPPING=rfc1459'',
          ''are supported by this server'']\<rparr>])"

fun writeAll :: "irc_message list \<Rightarrow> 's world \<Rightarrow> io_error option \<times> 's world" where
  \<comment> \<open>Writes in order; the first error returns.\<close>
  "writeAll [] w = (None, w)"
| "writeAll (m # ms) w =
     (case WriteMessage m w of
        (Some err, w') \<Rightarrow> (Some err, w')
      | (None, w') \<Rightarrow> writeAll ms w')"

function waitJoin :: "'s world \<Rightarrow> irc_error option \<times> 's world" where
  \<comment> \<open>Waits until the user joins the hub channel; commands it does not know are logged.\<close>
  "waitJoin w =
     (case ReadMessage w of
        (Inl err, w1) \<Rightarrow> (Some (IOError err), w1)
      | (Inr m, w1) \<Rightarrow>
          if Command m = ''PING'' then
            (case WriteMessage (m\<lparr>Command := ''PONG''\<rparr>) w1 of
               (Some err, w2) \<Rightarrow> (Some (IOError err), w2)
             | (None, w2) \<Rightarrow> waitJoin w2)
          else if Command m = ''JOIN'' then
            (if length (Params m) \<noteq> 1 then (Some (ExpectedChannelName m), w1)
             else
               let channel = Params m ! 0 in
               if channel \<noteq> ircHubChan then (Some (ExpectedJoinHub channel), w1)
               else (None, w1))
          else waitJoin w1)"
  by pat_completeness auto
termination
  by (relation "measure (\<lambda>w. length (inbox w))")
     (auto simp: ReadMessage_def WriteMessage_def
           split: list.splits if_splits sum.splits prod.splits)

definition joinMessage :: "irc_peer \<Rightarrow> peer \<Rightarrow> irc_message" where
  \<comment> \<open>The JOIN that \<open>PeersJoin\<close> sends peer \<open>p\<close> for one peer of the event.\<close>
  "joinMessage p other =
     \<lparr>Prefix =
        (case other of
           IrcPeer p2 \<Rightarrow> Some (ownPref p2)
         | OtherPeer name \<Rightarrow> Some \<lparr>Name = name, User = name, Host = Name (hostPref p)\<rparr>),
      Command = ''JOIN'', Params = [ircHubChan]\<rparr>"

fun PeersJoin :: "irc_peer \<Rightarrow> peer list \<Rightarrow> 's world \<Rightarrow> io_error option \<times> 's world" where
  "PeersJoin p [] w = (None, w)"
| "PeersJoin p (other # rest) w =
     (case WriteMessage (joinMessage p other) w of
        (Some err, w') \<Rightarrow> (Some err, w')
      | (None, w') \<Rightarrow> PeersJoin p rest w')"

definition acceptAndBroadcast :: "'s hub_ops \<Rightarrow> irc_peer \<Rightarrow> 's world \<Rightarrow> 's world" where
  \<comment> \<open>\<open>acceptPeer\<close>, whose callback takes the list to notify, then \<open>broadcastUserJoin\<close>.\<close>
  "acceptAndBroadcast H p w =
     (let (notify, s1) = acceptPeer H p (hub_st w);
          w1 = hubCall (\<lambda>_. s1) (EvAccept p) w
      in hubCall (broadcastUserJoin H p notify) (EvBroadcastJoin p notify) w1)"

definition ircAccept :: "'s hub_ops \<Rightarrow> irc_peer \<Rightarrow> 's world \<Rightarrow> irc_error option \<times> 's world" where
  "ircAccept H p w =
     (case writeAll (welcomeNumerics H (hub_st w) p) w of
        (Some err, w1) \<Rightarrow> (Some (IOError err), w1)
      | (None, w1) \<Rightarrow>
          (case waitJoin w1 of
             (Some e, w2) \<Rightarrow> (Some e, w2)
           | (None, w2) \<Rightarrow>
               (case WriteMessage
                       \<lparr>Prefix = Some (ownPref p), Command = ''JOIN'', Params = [ircHubChan]\<rparr> w2 of
                  (Some err, w3) \<Rightarrow> (Some (IOError err), w3)
                | (None, w3) \<Rightarrow>
                    (case PeersJoin p (Peers H (hub_st w3)) w3 of
                       (Some err, w4) \<Rightarrow> (Some (IOError err), w4)
                     | (None, w4) \<Rightarrow> (None, acceptAndBroadcast H p w4)))))"

definition ircHandshake ::
  "'s hub_ops \<Rightarrow> string \<Rightarrow> string \<Rightarrow> conn_info \<Rightarrow> 's world \<Rightarrow>
     (irc_error + irc_peer) \<times> 's world" where
  \<comment> \<open>\<open>host\<close> and \<open>port\<close> are the two parts of the connection's local address.\<close>
  "ircHandshake H host port cinfo w =
     (let pref = \<lparr>Name = host, User = '''', Host = ''''\<rparr> in
      case nickLoop H pref '''' '''' w of
        (Inl e, w1) \<Rightarrow> (Inl e, w1)
      | (Inr (name, user, unbind), w1) \<Rightarrow>
          (case getUser H name (hub_st w1) of
             Inl err \<Rightarrow> (Inl (HubError err), hubCall unbind (EvUnbind name) w1)
           | Inr (usr, rec) \<Rightarrow>
               if usr \<and> rec then
                 (if \<not> Secure cinfo
                  then (Inl ErrConnInsecure, hubCall unbind (EvUnbind name) w1)
                  else (Inl PasswordNotSupported, hubCall unbind (EvUnbind name) w1))
               else if IsPrivate H (hub_st w1)
               then (Inl ErrServerIsPrivate, hubCall unbind (EvUnbind name) w1)
               else
                 let peer = \<lparr>peer_name = name, hostPref = pref,
                             ownPref = \<lparr>Name = name, User = user, Host = host\<rparr>,
                             local_host = host, local_port = port\<rparr>;
                     w2 = w1\<lparr>hub_st := newBasePeer H cinfo (hub_st w1)\<rparr>
                 in
                 (case ircAccept H peer w2 of
                    (Some e, w3) \<Rightarrow> (Inl e, hubCall unbind (EvUnbind name) w3)
                  | (None, w3) \<Rightarrow> (Inr peer, w3))))"

subsection \<open>The session\<close>

function serveLoop :: "'s hub_ops \<Rightarrow> irc_peer \<Rightarrow> 's world \<Rightarrow> irc_error option \<times> 's world" where
  \<comment> \<open>The \<open>for\<close> loop of \<open>ServeIRC\<close>; \<open>None\<close> is the return of \<open>nil\<close>.\<close>
  "serveLoop H p w =
     (case ReadMessage w of
        (Inl err, w1) \<Rightarrow> if err = EOF then (None, w1) else (Some (IOError err), w1)
      | (Inr m, w1) \<Rightarrow>
          if Command m = ''PING'' then
            (case WriteMessage (m\<lparr>Command := ''PONG''\<rparr>) w1 of
               (Some err, w2) \<Rightarrow> (Some (IOError err), w2)
             | (None, w2) \<Rightarrow> serveLoop H p w2)
          else if Command m = ''PRIVMSG'' then
            (if length (Params m) \<noteq> 2 then (Some (InvalidChatCommand m), w1)
             else
               let dst = Params m ! 0; msg = Params m ! 1 in
               if dst = ircHubChan then
                 (if \<not> getGlobalChatEnabled H (hub_st w1) then (None, w1)
                  else
                    let cm = \<lparr>msg_name = '''', msg_text = msg\<rparr> in
                    serveLoop H p (hubCall (SendChat H p cm) (EvSendChat p cm) w1))
               else
                 (case PeerByName H dst (hub_st w1) of
                    Some d \<Rightarrow>
                      let cm = \<lparr>msg_name = peer_name p, msg_text = msg\<rparr> in
                      serveLoop H p (hubCall (privateChat H p d cm) (EvPrivateChat p d cm) w1)
                  | None \<Rightarrow> serveLoop H p w1))
          else if Command m = ''QUIT'' then (None, w1)
          else serveLoop H p w1)"
  by pat_completeness auto
termination
  by (relation "measure (\<lambda>(H, p, w). length (inbox w))")
     (auto simp: ReadMessage_def WriteMessage_def hubCall_def
           split: list.splits if_splits sum.splits prod.splits)

definition serveAccepted ::
  "'s hub_ops \<Rightarrow> irc_peer \<Rightarrow> 's world \<Rightarrow> irc_error option \<times> 's world" where
  \<comment> \<open>The loop of \<open>ServeIRC\<close> under its deferred \<open>peer.Close()\<close>.\<close>
  "serveAccepted H p w =
     (case serveLoop H p w of
        (r, w') \<Rightarrow> (r, hubCall (peerClose H p) (EvClose p) w'))"

definition ServeIRC ::
  "'s hub_ops \<Rightarrow> string \<Rightarrow> string \<Rightarrow> conn_info option \<Rightarrow> 's world \<Rightarrow>
     irc_error option \<times> 's world" where
  \<comment> \<open>\<open>cinfo.TLSVers\<close> is read before \<open>cinfo\<close> is compared with nil. The deferred
      \<open>peer.Close()\<close> runs on every return after the handshake.\<close>
  "ServeIRC H host port cinfo w =
     (case cinfo of
        None \<Rightarrow> (Some NilPointerPanic, w)
      | Some ci \<Rightarrow>
          (case ircHandshake H host port ci w of
             (Inl e, w1) \<Rightarrow> (Some e, w1)
           | (Inr peer, w1) \<Rightarrow>
               let (joined, s2) = callOnJoined H peer (hub_st w1);
                   w2 = w1\<lparr>hub_st := s2\<rparr>
               in
               if \<not> joined then (None, hubCall (peerClose H peer) (EvClose peer) w2)
               else serveAccepted H peer w2))"

subsection \<open>A small hub for the examples\<close>

text \<open>
  Modelled from the spec: the roster the bridge runs against is not part of the bridge's
  file. The state is the list of the nicks in the nick index; \<open>reserve_name\<close> gives a
  release function or fails when the nick is taken, \<open>name_available\<close> is the hint.
  Nobody is registered, the hub is public, the global chat is disabled and \<open>online\<close>
  are the peers of the roster.
\<close>

definition demoHub :: "peer list \<Rightarrow> (string list) hub_ops" where
  "demoHub online =
     \<lparr>validateUserName = (\<lambda>n s. if n = '''' then Some ''invalid name'' else None),
      nameAvailable = (\<lambda>n s. n \<notin> set s),
      reserveName = (\<lambda>n s. if n \<in> set s then ((id, False), s) else ((removeAll n, True), n # s)),
      getUser = (\<lambda>n s. Inr (False, False)),
      IsPrivate = (\<lambda>s. False),
      newBasePeer = (\<lambda>c s. s),
      Peers = (\<lambda>s. online),
      acceptPeer = (\<lambda>p s. (online, s)),
      broadcastUserJoin = (\<lambda>p n s. s),
      callOnJoined = (\<lambda>p s. (True, s)),
      getGlobalChatEnabled = (\<lambda>s. False),
      SendChat = (\<lambda>p m s. s),
      PeerByName = (\<lambda>n s. None),
      privateChat = (\<lambda>p d m s. s),
      peerClose = (\<lambda>p s. removeAll (peer_name p) s),
      hubName = (\<lambda>s. ''MyHub''),
      softName = (\<lambda>s. ''GoHub''),
      softVersion = (\<lambda>s. ''0.1''),
      createdDate = (\<lambda>s. ''Mon Jan 2 2006''),
      createdTime = (\<lambda>s. ''15:04:05''),
      errNickTaken = ''nick taken''\<rparr>"

definition demoWorld :: "irc_message list \<Rightarrow> string list \<Rightarrow> (string list) world" where
  "demoWorld msgs names =
     \<lparr>inbox = map Inr msgs, wres = [], wlog = [], hub_st = names, events = []\<rparr>"

definition ircMsg :: "string \<Rightarrow> string list \<Rightarrow> irc_message" where
  "ircMsg cmd ps = \<lparr>Prefix = None, Command = cmd, Params = ps\<rparr>"

definition demoPeer :: irc_peer where
  "demoPeer =
     \<lparr>peer_name = ''carol'', hostPref = \<lparr>Name = ''hub'', User = '''', Host = ''''\<rparr>,
      ownPref = \<lparr>Name = ''carol'', User = ''c'', Host = ''hub''\<rparr>,
      local_host = ''hub'', local_port = ''6667''\<rparr>"

section \<open>The NMDC client connection (package nmdc)\<close>

text \<open>
  A text encoding of the \<open>golang.org/x/text\<close> library, as far as the connection uses it:
  its name, and what a new decoder of it makes of a text (\<open>None\<close> when decoding fails).
\<close>

record encoding =
  enc_name :: string
  decString :: "string \<Rightarrow> string option"

text \<open>
  The connection. \<open>w_encoder\<close> is the encoding whose encoder, wrapped by
  \<open>HTMLEscapeUnsupported\<close>, the writer uses and \<open>r_decoder\<close> the encoding whose decoder the
  reader uses (\<open>None\<close> is nil: plain UTF-8). \<open>w_closes\<close>, \<open>conn_closes\<close> and \<open>r_closes\<close>
  count the calls of \<open>Close\<close> on the writer, the network connection and the reader.
\<close>

record nmdc_conn =
  fallback :: "encoding option"
  w_encoder :: "encoding option"
  r_decoder :: "encoding option"
  closed :: bool
  w_closes :: nat
  conn_closes :: nat
  r_closes :: nat

definition setEncoding :: "encoding option \<Rightarrow> bool \<Rightarrow> nmdc_conn \<Rightarrow> nmdc_conn" where
  "setEncoding enc event c =
     (case enc of
        Some e \<Rightarrow>
          let c1 = c\<lparr>w_encoder := Some e\<rparr>
          in if \<not> event then c1\<lparr>r_decoder := Some e\<rparr> else c1
      | None \<Rightarrow>
          let c1 = c\<lparr>w_encoder := None\<rparr>
          in if \<not> event then c1\<lparr>r_decoder := None\<rparr> else c1)"

definition SetEncoding :: "encoding option \<Rightarrow> nmdc_conn \<Rightarrow> nmdc_conn" where
  "SetEncoding enc c = setEncoding enc False c"


definition onUnknownEncoding ::
  "(string \<Rightarrow> bool) \<Rightarrow> string \<Rightarrow> nmdc_conn \<Rightarrow> encoding option \<times> nmdc_conn" where
  \<comment> \<open>\<open>ValidString\<close> is \<open>utf8.ValidString\<close>. The result is the decoder handed back to the
      reader, \<open>None\<close> for nil: use the current decoder. The error is always nil.\<close>
  "onUnknownEncoding ValidString text c =
     (case fallback c of
        None \<Rightarrow> (None, c)
      | Some fb \<Rightarrow>
          (case decString fb text of
             None \<Rightarrow> (None, c)
           | Some str \<Rightarrow>
               if \<not> ValidString str then (None, c)
               else (Some fb, setEncoding (Some fb) True c)))"

definition readerUnknownEncoding ::
  "(string \<Rightarrow> bool) \<Rightarrow> string \<Rightarrow> nmdc_conn \<Rightarrow> string option \<times> nmdc_conn" where
  \<comment> \<open>Modelled from the spec: the reader is part of the protocol library, not of this
      repository. On a text that its active decoder fails on it calls
      \<open>OnUnknownEncoding\<close>; a decoder that comes back becomes the active decoder and
      decodes this text; with nil the current decoder stays.\<close>
  "readerUnknownEncoding ValidString text c =
     (case onUnknownEncoding ValidString text c of
        (Some d, c') \<Rightarrow> (decString d text, c'\<lparr>r_decoder := Some d\<rparr>)
      | (None, c') \<Rightarrow> (None, c'))"

definition rawMessageHook ::
  "(nmdc_conn \<Rightarrow> io_error option \<times> nmdc_conn) \<Rightarrow> string \<Rightarrow> string \<Rightarrow> nmdc_conn \<Rightarrow>
     (bool \<times> io_error option) \<times> nmdc_conn" where
  \<comment> \<open>The hook \<open>NewConn\<close> registers with \<open>OnRawMessage\<close>. \<open>EnableZlib\<close> is the reader's
      method of the protocol library.\<close>
  "rawMessageHook EnableZlib cmd args c =
     (if cmd = ''ZOn'' then
        (let (err, c') = EnableZlib c in ((False, err), c'))
      else ((True, None), c))"

definition Conn_Close ::
  "io_error option \<Rightarrow> io_error option \<Rightarrow> nmdc_conn \<Rightarrow> io_error option \<times> nmdc_conn" where
  \<comment> \<open>\<open>werr\<close> and \<open>rerr\<close> are what \<open>c.w.Close()\<close> and \<open>c.r.Close()\<close> return when they are
      called; the error of \<open>c.conn.Close()\<close> is dropped.\<close>
  "Conn_Close werr rerr c =
     (if closed c then (None, c)
      else
        let c1 = c\<lparr>closed := True\<rparr>;
            c2 = c1\<lparr>w_closes := w_closes c1 + 1\<rparr>;
            last1 = (case werr of Some err \<Rightarrow> Some err | None \<Rightarrow> None);
            c3 = c2\<lparr>conn_closes := conn_closes c2 + 1\<rparr>;
            c4 = c3\<lparr>r_closes := r_closes c3 + 1\<rparr>;
            last2 = (case rerr of Some err \<Rightarrow> Some err | None \<Rightarrow> last1)
        in (last2, c4))"

fun Conn_Close_times ::
  "(io_error option \<times> io_error option) list \<Rightarrow> nmdc_conn \<Rightarrow>
     io_error option list \<times> nmdc_conn" where
  \<comment> \<open>One call of \<open>Close\<close> after the other, one for each pair of results the writer and
      the reader would give; the returns in order and the connection at the end.\<close>
  "Conn_Close_times [] c = ([], c)"
| "Conn_Close_times ((werr, rerr) # rs) c =
     (let (r, c') = Conn_Close werr rerr c;
          (rets, c'') = Conn_Close_times rs c'
      in (r # rets, c''))"

subsection \<open>The goroutines around the switch of the encoding\<close>

text \<open>
  \<open>ReadMsg\<close> holds the read lock \<open>rmu\<close> for the whole read; \<open>WriteMsg\<close> holds the write
  lock \<open>wmu\<close> while the writer encodes. \<open>onUnknownEncoding\<close>, which the reader calls
  inside \<open>ReadMsg\<close>, takes no lock, and with \<open>event\<close> set \<open>setEncoding\<close> leaves the
  reader's decoder to the reader. The steps of a goroutine, each of them atomic:
\<close>

datatype mutex = Wmu | Rmu

datatype act =
    LockMu mutex
  | UnlockMu mutex
  | CallOnUnknownEncoding string
  | InstallDecoder
  | EncodeMsg

text \<open>
  The connection with its locks: the mutexes that are held, the decoder the callback
  has handed back and the reader has not installed yet, and for every message encoded
  so far the writer's encoder that encoded it and the reader's decoder at that moment.
\<close>

record conc_state =
  the_conn :: nmdc_conn
  held :: "mutex list"
  returned_dec :: "encoding option"
  encoded_with :: "(encoding option \<times> encoding option) list"

definition doAct :: "(string \<Rightarrow> bool) \<Rightarrow> act \<Rightarrow> conc_state \<Rightarrow> conc_state option" where
  \<comment> \<open>One step; \<open>None\<close> when the step has to wait for a mutex that is held. Installing the
      decoder that came back is the reader's part, modelled as in
      \<open>readerUnknownEncoding\<close>.\<close>
  "doAct ValidString a s =
     (case a of
        LockMu m \<Rightarrow> if m \<in> set (held s) then None else Some (s\<lparr>held := m # held s\<rparr>)
      | UnlockMu m \<Rightarrow> Some (s\<lparr>held := removeAll m (held s)\<rparr>)
      | CallOnUnknownEncoding text \<Rightarrow>
          (case onUnknownEncoding ValidString text (the_conn s) of
             (dec, c') \<Rightarrow> Some (s\<lparr>the_conn := c', returned_dec := dec\<rparr>))
      | InstallDecoder \<Rightarrow>
          (case returned_dec s of
             Some d \<Rightarrow> Some (s\<lparr>the_conn := (the_conn s)\<lparr>r_decoder := Some d\<rparr>,
                               returned_dec := None\<rparr>)
           | None \<Rightarrow> Some s)
      | EncodeMsg \<Rightarrow>
          Some (s\<lparr>encoded_with :=
                    encoded_with s @ [(w_encoder (the_conn s), r_decoder (the_conn s))]\<rparr>))"

definition ReadMsg_acts :: "string \<Rightarrow> act list" where
  \<comment> \<open>\<open>ReadMsg\<close> on a text the active decoder fails on.\<close>
  "ReadMsg_acts text = [LockMu Rmu, CallOnUnknownEncoding text, InstallDecoder, UnlockMu Rmu]"


datatype goroutine = ReaderG | WriterG

fun interleave ::
  "(string \<Rightarrow> bool) \<Rightarrow> goroutine list \<Rightarrow> act list \<Rightarrow> act list \<Rightarrow> conc_state \<Rightarrow>
     conc_state option" where
  \<comment> \<open>Runs a reading and a writing goroutine in the order of the schedule; \<open>None\<close> when
      the goroutine whose turn it is has to wait or has nothing left to do.\<close>
  "interleave V [] rs ws s = Some s"
| "interleave V (ReaderG # sched) (a # rs) ws s =
     (case doAct V a s of
        None \<Rightarrow> None
      | Some s' \<Rightarrow> interleave V sched rs ws s')"
| "interleave V (WriterG # sched) rs (a # ws) s =
     (case doAct V a s of
        None \<Rightarrow> None
      | Some s' \<Rightarrow> interleave V sched rs ws s')"
| "interleave V (g # sched) rs ws s = None"

definition unlocked :: "nmdc_conn \<Rightarrow> conc_state" where
  "unlocked c = \<lparr>the_conn = c, held = [], returned_dec = None, encoded_with = []\<rparr>"

section \<open>The ADC client-to-hub connection (adc/client/client2hub.go)\<close>

subsection \<open>Close\<close>

text \<open>
  The two channels of the connection, each closed or not, and the number of calls of
  \<open>Close\<close> on the underlying connection. \<open>closed_ch\<close> is closed by the read loop when it
  returns.
\<close>

record adc_conn =
  closing :: bool
  closed_ch :: bool
  adc_conn_closes :: nat

definition waitClosed :: "adc_conn \<Rightarrow> adc_conn option" where
  \<comment> \<open>The receive \<open><-c.closed\<close>. It returns when the channel is closed. The read loop
      runs beside \<open>Close\<close>: once the underlying connection is closed its read fails, it
      returns and its deferred \<open>close(c.closed)\<close> runs. Before that the receive blocks
      for ever, which is \<open>None\<close>.\<close>
  "waitClosed c =
     (if closed_ch c then Some c
      else if 0 < adc_conn_closes c then Some (c\<lparr>closed_ch := True\<rparr>)
      else None)"

definition client_Conn_Close ::
  "io_error option \<Rightarrow> adc_conn \<Rightarrow> (io_error option \<times> adc_conn) option" where
  \<comment> \<open>\<open>cerr\<close> is what \<open>c.conn.Close()\<close> returns when it is called.\<close>
  "client_Conn_Close cerr c =
     (if closing c then
        (case waitClosed c of
           None \<Rightarrow> None
         | Some c' \<Rightarrow> Some (None, c'))
      else
        let c1 = c\<lparr>closing := True\<rparr>;
            c2 = c1\<lparr>adc_conn_closes := adc_conn_closes c1 + 1\<rparr>
        in
        (case waitClosed c2 of
           None \<Rightarrow> None
         | Some c3 \<Rightarrow> Some (cerr, c3)))"

fun client_Conn_Close_times ::
  "io_error option list \<Rightarrow> adc_conn \<Rightarrow> (io_error option list \<times> adc_conn) option" where
  "client_Conn_Close_times [] c = Some ([], c)"
| "client_Conn_Close_times (cerr # rs) c =
     (case client_Conn_Close cerr c of
        None \<Rightarrow> None
      | Some (r, c') \<Rightarrow>
          (case client_Conn_Close_times rs c' of
             None \<Rightarrow> None
           | Some (rets, c'') \<Rightarrow> Some (r # rets, c'')))"

subsection \<open>The PROTOCOL phase\<close>

datatype feature = FeaBASE | FeaBAS0 | FeaTIGR | FeaBZIP | FeaOther string

type_synonym ModFeatures = "feature \<rightharpoonup> bool"

type_synonym SID = "32 word"

datatype adc_msg =
    Supported ModFeatures
  | SIDAssign SID
  | OtherMsg string

datatype adc_error =
    AdcIOError io_error
  | ExpectedSUP adc_msg
  | ExpectedSIDMsg adc_msg
  | HubNoBASE
  | HubNoTIGR

text \<open>
  \<open>Intersect\<close> and \<open>IsSet\<close> are methods of the protocol library's \<open>ModFeatures\<close>; the
  handshake is modelled for any implementation of them.
\<close>

record features_ops =
  Intersect :: "ModFeatures \<Rightarrow> ModFeatures \<Rightarrow> ModFeatures"
  IsSet :: "ModFeatures \<Rightarrow> feature \<Rightarrow> bool"

text \<open>
  The underlying connection: the results of the coming calls of \<open>ReadInfoMsg\<close> (after the
  last one the read fails with end of file), the results of the coming calls of
  \<open>WriteHubMsg\<close> and \<open>Flush\<close> (after the last one they succeed), and the messages
  written.
\<close>

record adc_io =
  adc_inbox :: "(io_error + adc_msg) list"
  adc_wres :: "io_error option list"
  adc_wlog :: "adc_msg list"

definition ReadInfoMsg :: "adc_io \<Rightarrow> (io_error + adc_msg) \<times> adc_io" where
  "ReadInfoMsg w =
     (case adc_inbox w of
        [] \<Rightarrow> (Inl EOF, w)
      | r # rs \<Rightarrow> (r, w\<lparr>adc_inbox := rs\<rparr>))"

definition nextWriteResult :: "adc_io \<Rightarrow> io_error option \<times> adc_io" where
  "nextWriteResult w =
     (case adc_wres w of
        [] \<Rightarrow> (None, w)
      | r # rs \<Rightarrow> (r, w\<lparr>adc_wres := rs\<rparr>))"

definition WriteHubMsg :: "adc_msg \<Rightarrow> adc_io \<Rightarrow> io_error option \<times> adc_io" where
  "WriteHubMsg m w = nextWriteResult (w\<lparr>adc_wlog := adc_wlog w @ [m]\<rparr>)"

definition Flush :: "adc_io \<Rightarrow> io_error option \<times> adc_io" where
  "Flush w = nextWriteResult w"

definition ourFeatures :: ModFeatures where
  "ourFeatures = [FeaBASE \<mapsto> True, FeaBAS0 \<mapsto> True, FeaTIGR \<mapsto> True, FeaBZIP \<mapsto> True]"

definition protocolToHub ::
  "features_ops \<Rightarrow> adc_io \<Rightarrow> (adc_error + (SID \<times> ModFeatures)) \<times> adc_io" where
  "protocolToHub F w =
     (case WriteHubMsg (Supported ourFeatures) w of
        (Some err, w1) \<Rightarrow> (Inl (AdcIOError err), w1)
      | (None, w1) \<Rightarrow>
     (case Flush w1 of
        (Some err, w2) \<Rightarrow> (Inl (AdcIOError err), w2)
      | (None, w2) \<Rightarrow>
     (case ReadInfoMsg w2 of
        (Inl err, w3) \<Rightarrow> (Inl (AdcIOError err), w3)
      | (Inr msg, w3) \<Rightarrow>
     (case msg of
        Supported hubFeatures \<Rightarrow>
          let mutual = Intersect F ourFeatures hubFeatures in
          if \<not> IsSet F mutual FeaBASE \<and> \<not> IsSet F mutual FeaBAS0 then (Inl HubNoBASE, w3)
          else if \<not> IsSet F mutual FeaTIGR then (Inl HubNoTIGR, w3)
          else
            (case ReadInfoMsg w3 of
               (Inl err, w4) \<Rightarrow> (Inl (AdcIOError err), w4)
             | (Inr msg2, w4) \<Rightarrow>
                 (case msg2 of
                    SIDAssign sid \<Rightarrow> (Inr (sid, mutual), w4)
                  | _ \<Rightarrow> (Inl (ExpectedSIDMsg msg2), w4)))
      | _ \<Rightarrow> (Inl (ExpectedSUP msg), w3)))))"

subsection \<open>Instances for the examples\<close>




definition freshConn :: nmdc_conn where
  "freshConn =
     \<lparr>fallback = None, w_encoder = None, r_decoder = None, closed = False,
      w_closes = 0, conn_closes = 0, r_closes = 0\<rparr>"

definition freshClient :: adc_conn where
  "freshClient = \<lparr>closing = False, closed_ch = False, adc_conn_closes = 0\<rparr>"

definition setFeatures :: features_ops where
  \<comment> \<open>Features as sets: a feature is set when it is mapped to true.\<close>
  "setFeatures =
     \<lparr>Intersect = (\<lambda>a b k. if a k = Some True \<and> b k = Some True then Some True else None),
      IsSet = (\<lambda>m k. m k = Some True)\<rparr>"

definition hubSays :: "adc_msg list \<Rightarrow> adc_io" where
  "hubSays msgs = \<lparr>adc_inbox = map Inr msgs, adc_wres = [], adc_wlog = []\<rparr>"

section \<open>Properties of the configuration\<close>

lemmas config_key_defs =
  ConfigHubName_def ConfigHubDesc_def ConfigHubTopic_def ConfigHubOwner_def
  ConfigHubWebsite_def ConfigHubEmail_def ConfigBotName_def ConfigBotDesc_def
  ConfigHubMOTD_def ConfigHubPrivate_def ConfigChatGlobalEnabled_def ConfigZlibLevel_def
  ConfigNMDCRedirectTLS_def ConfigNMDCRedirectADC_def ConfigADCRedirectTLS_def


lemma ignored_all_plain:
  "list_all (\<lambda>k. configAliases k = None \<and> k \<notin> set stringKeys) configIgnoredKeys"
  by code_simp

lemma ignored_not_alias: "configIgnored key \<Longrightarrow> resolveAlias key = key"
  using ignored_all_plain by (simp add: configIgnored_def list_all_iff resolveAlias_def)

lemma ignored_not_string_key: "configIgnored key \<Longrightarrow> key \<notin> set stringKeys"
  using ignored_all_plain by (simp add: configIgnored_def list_all_iff)

lemma setConfigString_default:
  "key \<notin> set stringKeys \<Longrightarrow> resolveAlias key = key \<Longrightarrow>
     setConfigString T key val h = setConfigMap key (GString val) h"
  by (simp add: setConfigString_def stringKeys_def)

lemma GetConfigString_default:
  "key \<notin> set stringKeys \<Longrightarrow> resolveAlias key = key \<Longrightarrow>
     GetConfigString T key h =
       (case getConfigMap key h of
           None \<Rightarrow> ('''', False)
         | Some (GString v) \<Rightarrow> (v, True)
         | Some v \<Rightarrow> (sprint T v, True))"
  by (simp add: GetConfigString_def stringKeys_def)

lemma setConfigMap_ignored: "configIgnored key \<Longrightarrow> setConfigMap key val h = h"
  by (simp add: setConfigMap_def)

lemma saveConfig_id: "saveConfig key val h = h"
  by (simp add: saveConfig_def)

text \<open>
  Claim C8. For a key of the ignored set, each of the live mutation operations
  \<open>SetConfig\<close>, \<open>SetConfigBool\<close>, \<open>SetConfigString\<close>, \<open>SetConfigInt\<close>,
  \<open>SetConfigUint\<close> and \<open>SetConfigFloat\<close> returns the hub it was given: nothing is stored
  in the generic map and, the typed setters being arbitrary, none of them is run.
  \<open>SetConfig\<close> does not panic either, whatever the dynamic type of the value.
\<close>

theorem ignored_keys_frozen:
  assumes "configIgnored key"
  shows "SetConfig T key v h = Inr h \<and>
         SetConfigBool T key b h = h \<and>
         SetConfigString T key s h = h \<and>
         SetConfigInt T key i h = h \<and>
         SetConfigUint T key u h = h \<and>
         SetConfigFloat T key f h = h"
proof -
  have a: "resolveAlias key = key" using assms by (rule ignored_not_alias)
  have k: "key \<notin> set stringKeys" using assms by (rule ignored_not_string_key)
  have 1: "SetConfig T key v h = Inr h"
    using assms by (simp add: SetConfig_def setConfig_def)
  have 2: "SetConfigBool T key b h = h"
    using assms a by (simp add: SetConfigBool_def setConfigBool_def saveConfig_id)
  have 3: "SetConfigString T key s h = h"
    using assms by (simp add: SetConfigString_def setConfigString_default [OF k a]
        setConfigMap_ignored saveConfig_id)
  have 4: "SetConfigInt T key i h = h"
    using assms a by (simp add: SetConfigInt_def setConfigInt_def saveConfig_id)
  have 5: "SetConfigUint T key u h = h"
    using assms a by (simp add: SetConfigUint_def setConfigUint_def saveConfig_id)
  have 6: "SetConfigFloat T key f h = h"
    using assms a by (simp add: SetConfigFloat_def setConfigFloat_def saveConfig_id)
  from 1 2 3 4 5 6 show ?thesis by simp
qed

theorem ignored_keys_frozen_witness:
  "configIgnored ''serve.port'' \<and>
   SetConfig idTyped ''serve.port'' (GInt 411) emptyHub = Inr emptyHub \<and>
   SetConfigBool idTyped ''serve.port'' True emptyHub = emptyHub \<and>
   SetConfigString idTyped ''serve.port'' ''411'' emptyHub = emptyHub \<and>
   SetConfigInt idTyped ''serve.port'' 411 emptyHub = emptyHub \<and>
   SetConfigUint idTyped ''serve.port'' 411 emptyHub = emptyHub \<and>
   SetConfigFloat idTyped ''serve.port'' 411 emptyHub = emptyHub"
proof -
  have h: "configIgnored ''serve.port''"
    by (simp add: configIgnored_def configIgnoredKeys_def)
  show ?thesis
    using h ignored_keys_frozen [OF h, of idTyped "GInt 411" emptyHub True "''411''" 411 411 411]
    by simp
qed

text \<open>
  Claim C9. For a key that is not a built-in typed key, not an alias and not ignored,
  \<open>SetConfigString\<close> followed by \<open>GetConfigString\<close> gives back the string and
  \<open>true\<close>: the value goes through the generic map unchanged.
\<close>

theorem unknown_key_roundtrip:
  assumes "key \<notin> set builtinKeys" and "key \<notin> dom configAliases" and "\<not> configIgnored key"
  shows "GetConfigString T key (SetConfigString T key v h) = (v, True)"
proof -
  have a: "resolveAlias key = key"
    using assms(2) by (auto simp: resolveAlias_def split: option.splits)
  have k: "key \<notin> set stringKeys"
    using assms(1) by (auto simp: builtinKeys_def stringKeys_def)
  have s: "SetConfigString T key v h = setConfigMap key (GString v) h"
    by (simp add: SetConfigString_def saveConfig_id setConfigString_default [OF k a])
  have g: "getConfigMap key (setConfigMap key (GString v) h) = Some (GString v)"
    using assms(3) by (simp add: getConfigMap_def setConfigMap_def Let_def)
  show ?thesis
    by (simp add: s GetConfigString_default [OF k a] g)
qed

theorem unknown_key_roundtrip_witness:
  "''my.key'' \<notin> set builtinKeys \<and> ''my.key'' \<notin> dom configAliases \<and>
   \<not> configIgnored ''my.key'' \<and>
   GetConfigString idTyped ''my.key'' (SetConfigString idTyped ''my.key'' ''abc'' emptyHub)
     = (''abc'', True)"
proof -
  have b: "''my.key'' \<notin> set builtinKeys"
    by (simp add: builtinKeys_def config_key_defs)
  have d: "''my.key'' \<notin> dom configAliases"
    by (simp add: configAliases_def dom_def)
  have i: "\<not> configIgnored ''my.key''"
    by (simp add: configIgnored_def configIgnoredKeys_def config_key_defs)
  show ?thesis
    using b d i unknown_key_roundtrip [OF b d i, of idTyped "''abc''" emptyHub] by simp
qed

declare nickLoop.simps [simp del] waitJoin.simps [simp del] serveLoop.simps [simp del]

lemma ReadMessage_frame:
  "ReadMessage w = (r, w') \<Longrightarrow>
     events w' = events w \<and> hub_st w' = hub_st w \<and> wlog w' = wlog w \<and> wres w' = wres w"
  by (auto simp: ReadMessage_def split: list.splits)

lemma WriteMessage_frame:
  "WriteMessage m w = (r, w') \<Longrightarrow>
     events w' = events w \<and> hub_st w' = hub_st w \<and> inbox w' = inbox w \<and>
     wlog w' = wlog w @ [m]"
  by (auto simp: WriteMessage_def split: list.splits)

lemma expectUser_frame:
  "expectUser name user w = (r, w') \<Longrightarrow>
     events w' = events w \<and> hub_st w' = hub_st w \<and> wlog w' = wlog w"
  by (auto simp: expectUser_def dest: ReadMessage_frame split: if_splits prod.splits sum.splits)

lemma nickLoop_events:
  "nickLoop H pref name user w = (r, w') \<Longrightarrow>
     events w' = events w @ (case r of Inl e \<Rightarrow> [] | Inr (n, u, ub) \<Rightarrow> [EvReserve n])"
proof (induction H pref name user w arbitrary: r w' rule: nickLoop.induct)
  case (1 H pref name user w)
  obtain r1 w1 where rd: "ReadMessage w = (r1, w1)" by (cases "ReadMessage w")
  note f1 = ReadMessage_frame [OF rd]
  show ?case
  proof (cases r1)
    case (Inl err)
    with "1.prems" rd f1 show ?thesis by (auto simp: nickLoop.simps Let_def)
  next
    case (Inr m)
    show ?thesis
    proof (cases "Command m \<noteq> ''NICK'' \<or> length (Params m) \<noteq> 1")
      case True
      with "1.prems" rd f1 Inr show ?thesis by (auto simp: nickLoop.simps Let_def)
    next
      case False
      obtain r2 w2 where eu: "expectUser name user w1 = (r2, w2)"
        by (cases "expectUser name user w1")
      note f2 = expectUser_frame [OF eu]
      show ?thesis
      proof (cases r2)
        case (Inl e)
        with "1.prems" rd f1 f2 Inr False eu show ?thesis by (auto simp: nickLoop.simps Let_def)
      next
        case user': (Inr user')
        let ?t = "Params m ! 0"
        show ?thesis
        proof (cases "validateUserName H ?t (hub_st w2)")
          case (Some e)
          with "1.prems" rd f1 f2 Inr False eu user' show ?thesis
            by (auto simp: nickLoop.simps Let_def)
        next
          case None
          show ?thesis
          proof (cases "nameAvailable H ?t (hub_st w2)")
            case na: False
            obtain rw ww where wm: "WriteMessage (nickTaken H pref ?t) w2 = (rw, ww)"
              by (cases "WriteMessage (nickTaken H pref ?t) w2")
            have rec: "nickLoop H pref ?t user' ww = (r, w')"
              using "1.prems" rd Inr False eu user' None na wm by (simp add: nickLoop.simps Let_def)
            have "events w' = events ww @ (case r of Inl e \<Rightarrow> [] | Inr (n, u, ub) \<Rightarrow> [EvReserve n])"
              using "1.IH"(1) [OF rd [symmetric] Inr False refl eu [symmetric] user' None _ ]
                na rec wm by simp
            then show ?thesis using WriteMessage_frame [OF wm] f1 f2 by simp
          next
            case av: True
            obtain ub ok s' where rn: "reserveName H ?t (hub_st w2) = ((ub, ok), s')"
              by (cases "reserveName H ?t (hub_st w2)") auto
            show ?thesis
            proof (cases ok)
              case True
              with "1.prems" rd f1 f2 Inr False eu user' None av rn show ?thesis
                by (auto simp: nickLoop.simps hubCall_def Let_def)
            next
              case nok: False
              obtain rw ww where wm:
                "WriteMessage (nickTaken H pref ?t) (w2\<lparr>hub_st := s'\<rparr>) = (rw, ww)"
                by (cases "WriteMessage (nickTaken H pref ?t) (w2\<lparr>hub_st := s'\<rparr>)")
              have rec: "nickLoop H pref ?t user' ww = (r, w')"
                using "1.prems" rd Inr False eu user' None av rn nok wm
                by (simp add: nickLoop.simps Let_def)
              have "events w' = events ww @ (case r of Inl e \<Rightarrow> [] | Inr (n, u, ub) \<Rightarrow> [EvReserve n])"
                using "1.IH"(2) [OF rd [symmetric] Inr False refl eu [symmetric] user' None _ rn [symmetric] refl]
                  av nok rec wm by simp
              then show ?thesis using WriteMessage_frame [OF wm] f1 f2 by simp
            qed
          qed
        qed
      qed
    qed
  qed
qed

lemma writeAll_frame:
  "writeAll ms w = (r, w') \<Longrightarrow>
     events w' = events w \<and> hub_st w' = hub_st w \<and> inbox w' = inbox w \<and>
     (r = None \<longrightarrow> wlog w' = wlog w @ ms)"
proof (induction ms arbitrary: w)
  case Nil
  then show ?case by auto
next
  case (Cons m ms)
  obtain r1 w1 where wm: "WriteMessage m w = (r1, w1)" by (cases "WriteMessage m w")
  note f = WriteMessage_frame [OF wm]
  show ?case
  proof (cases r1)
    case None
    with Cons.prems wm have "writeAll ms w1 = (r, w')" by simp
    from Cons.IH [OF this] f show ?thesis by simp
  next
    case (Some err)
    with Cons.prems wm f show ?thesis by auto
  qed
qed

lemma PeersJoin_frame:
  "PeersJoin p ps w = (r, w') \<Longrightarrow>
     events w' = events w \<and> hub_st w' = hub_st w \<and> inbox w' = inbox w \<and>
     (r = None \<longrightarrow> wlog w' = wlog w @ map (joinMessage p) ps)"
proof (induction ps arbitrary: w)
  case Nil
  then show ?case by auto
next
  case (Cons x ps)
  obtain r1 w1 where wm: "WriteMessage (joinMessage p x) w = (r1, w1)"
    by (cases "WriteMessage (joinMessage p x) w")
  note f = WriteMessage_frame [OF wm]
  show ?case
  proof (cases r1)
    case None
    with Cons.prems wm have "PeersJoin p ps w1 = (r, w')" by simp
    from Cons.IH [OF this] f show ?thesis by simp
  next
    case (Some err)
    with Cons.prems wm f show ?thesis by auto
  qed
qed

lemma waitJoin_frame:
  "waitJoin w = (r, w') \<Longrightarrow> events w' = events w \<and> hub_st w' = hub_st w"
proof (induction w arbitrary: r w' rule: waitJoin.induct)
  case (1 w)
  obtain r1 w1 where rd: "ReadMessage w = (r1, w1)" by (cases "ReadMessage w")
  note f1 = ReadMessage_frame [OF rd]
  show ?case
  proof (cases r1)
    case (Inl err)
    with "1.prems" rd f1 show ?thesis by (auto simp: waitJoin.simps)
  next
    case (Inr m)
    consider (ping) "Command m = ''PING''" | (join) "Command m = ''JOIN''"
      | (other) "Command m \<noteq> ''PING''" "Command m \<noteq> ''JOIN''" by auto
    then show ?thesis
    proof cases
      case ping
      obtain rw ww where wm: "WriteMessage (m\<lparr>Command := ''PONG''\<rparr>) w1 = (rw, ww)"
        by (cases "WriteMessage (m\<lparr>Command := ''PONG''\<rparr>) w1")
      note fw = WriteMessage_frame [OF wm]
      show ?thesis
      proof (cases rw)
        case None
        have "waitJoin ww = (r, w')"
          using "1.prems" rd Inr ping wm None by (simp add: waitJoin.simps)
        from "1.IH"(1) [OF rd [symmetric] Inr ping wm [symmetric] None this] fw f1
        show ?thesis by simp
      next
        case (Some err)
        with "1.prems" rd Inr ping wm fw f1 show ?thesis by (auto simp: waitJoin.simps)
      qed
    next
      case join
      with "1.prems" rd Inr f1 show ?thesis
        by (auto simp: waitJoin.simps Let_def split: if_splits)
    next
      case other
      have "waitJoin w1 = (r, w')"
        using "1.prems" rd Inr other by (simp add: waitJoin.simps)
      from "1.IH"(2) [OF rd [symmetric] Inr other this] f1 show ?thesis by simp
    qed
  qed
qed



lemma ircAccept_fail:
  assumes "ircAccept H p w = (Some e, w')"
  shows "events w' = events w \<and> hub_st w' = hub_st w"
proof -
  obtain r1 w1 where a: "writeAll (welcomeNumerics H (hub_st w) p) w = (r1, w1)"
    by (cases "writeAll (welcomeNumerics H (hub_st w) p) w")
  note f1 = writeAll_frame [OF a]
  obtain r2 w2 where b: "waitJoin w1 = (r2, w2)" by (cases "waitJoin w1")
  note f2 = waitJoin_frame [OF b]
  obtain r3 w3 where c:
    "WriteMessage \<lparr>Prefix = Some (ownPref p), Command = ''JOIN'', Params = [ircHubChan]\<rparr> w2
       = (r3, w3)"
    by (cases "WriteMessage \<lparr>Prefix = Some (ownPref p), Command = ''JOIN'', Params = [ircHubChan]\<rparr> w2")
  note f3 = WriteMessage_frame [OF c]
  obtain r4 w4 where d: "PeersJoin p (Peers H (hub_st w3)) w3 = (r4, w4)"
    by (cases "PeersJoin p (Peers H (hub_st w3)) w3")
  note f4 = PeersJoin_frame [OF d]
  show ?thesis
    using assms a b c d f1 f2 f3 f4
    by (auto simp: ircAccept_def split: option.splits)
qed






text \<open>
  Claim C1. On every error exit of \<open>ircHandshake\<close>: when the NICK loop ended without a
  reservation the handshake has made no call that changes the hub; when it ended with a
  reservation of \<open>name\<close> and the release function \<open>unbind\<close>, the calls made are that
  reservation followed by exactly one release, which is the last thing done, and the hub
  is left in a state \<open>unbind\<close> returned. This covers the failure of \<open>getUser\<close>, the
  registered user on an insecure or on a secure connection, the private hub and every
  failure of \<open>ircAccept\<close>.
\<close>

theorem handshake_error_releases_once:
  assumes "ircHandshake H host port cinfo w = (Inl e, w')"
  shows "case fst (nickLoop H \<lparr>Name = host, User = '''', Host = ''''\<rparr> '''' '''' w) of
           Inl e0 \<Rightarrow> events w' = events w
         | Inr (name, user, unbind) \<Rightarrow>
             events w' = events w @ [EvReserve name, EvUnbind name] \<and>
             (\<exists>s. hub_st w' = unbind s)"
proof -
  let ?pref = "\<lparr>Name = host, User = '''', Host = ''''\<rparr>"
  obtain r0 w1 where nl: "nickLoop H ?pref '''' '''' w = (r0, w1)"
    by (cases "nickLoop H ?pref '''' '''' w")
  note ev1 = nickLoop_events [OF nl]
  show ?thesis
  proof (cases r0)
    case (Inl e0)
    with assms nl ev1 show ?thesis by (simp add: ircHandshake_def)
  next
    case (Inr t)
    obtain name user unbind where t: "t = (name, user, unbind)" by (cases t)
    have ev1': "events w1 = events w @ [EvReserve name]" using ev1 Inr t by simp
    let ?rel = "hubCall unbind (EvUnbind name)"
    have rel: "\<And>x. events x = events w1 \<Longrightarrow>
        events (?rel x) = events w @ [EvReserve name, EvUnbind name] \<and>
        (\<exists>s. hub_st (?rel x) = unbind s)"
      using ev1' by (auto simp: hubCall_def)
    have goal: "events w' = events w @ [EvReserve name, EvUnbind name] \<and>
        (\<exists>s. hub_st w' = unbind s)"
    proof (cases "getUser H name (hub_st w1)")
      case (Inl err)
      with assms nl Inr t have "w' = ?rel w1" by (simp add: ircHandshake_def)
      with rel [of w1] show ?thesis by simp
    next
      case gu: (Inr ur)
      obtain usr rec where ur: "ur = (usr, rec)" by (cases ur)
      show ?thesis
      proof (cases "(usr \<and> rec) \<or> IsPrivate H (hub_st w1)")
        case True
        with assms nl Inr t gu ur have "w' = ?rel w1"
          by (auto simp: ircHandshake_def split: if_splits)
        with rel [of w1] show ?thesis by simp
      next
        case False
        let ?peer = "\<lparr>peer_name = name, hostPref = ?pref,
                      ownPref = \<lparr>Name = name, User = user, Host = host\<rparr>,
                      local_host = host, local_port = port\<rparr>"
        let ?w2 = "w1\<lparr>hub_st := newBasePeer H cinfo (hub_st w1)\<rparr>"
        obtain ra w3 where ia: "ircAccept H ?peer ?w2 = (ra, w3)"
          by (cases "ircAccept H ?peer ?w2")
        have hs: "ircHandshake H host port cinfo w =
                    (case ra of Some e \<Rightarrow> (Inl e, ?rel w3) | None \<Rightarrow> (Inr ?peer, w3))"
          using nl Inr t gu ur False ia by (auto simp: ircHandshake_def Let_def)
        from assms hs obtain ea where ra: "ra = Some ea" and w': "w' = ?rel w3"
          by (cases ra) auto
        have "events w3 = events w1" using ircAccept_fail [OF ia [unfolded ra]] by simp
        with rel [of w3] w' show ?thesis by simp
      qed
    qed
    show ?thesis using nl Inr t goal by simp
  qed
qed

text \<open>
  Claim C7. When the nick of a NICK command is valid but taken (\<open>nameAvailable\<close> says no,
  or \<open>reserveName\<close> fails), the handshake hands numeric 433 with the rejected nick to
  \<open>WriteMessage\<close>, makes no other call, and goes round the loop again on the rest of the
  input: the result of the handshake is the result of the loop from there. If the nick was
  not empty and the next message is a NICK with a valid, free nick, that nick is reserved.
\<close>

theorem nick_taken_433:
  assumes "inbox w = Inr m # rest"
    and "Command m = ''NICK''" and "Params m = [tname]"
    and "expectUser name user (w\<lparr>inbox := rest\<rparr>) = (Inr user', w2)"
    and "validateUserName H tname (hub_st w) = None"
    and "\<not> nameAvailable H tname (hub_st w) \<or> \<not> snd (fst (reserveName H tname (hub_st w)))"
  shows "\<exists>w3. nickLoop H pref name user w = nickLoop H pref tname user' w3 \<and>
           wlog w3 = wlog w @ [nickTaken H pref tname] \<and>
           Command (nickTaken H pref tname) = ''433'' \<and>
           tname \<in> set (Params (nickTaken H pref tname)) \<and>
           inbox w3 = inbox w2 \<and> events w3 = events w \<and>
           (\<forall>m2 rest2 t2.
              tname \<noteq> '''' \<and> inbox w3 = Inr m2 # rest2 \<and>
              Command m2 = ''NICK'' \<and> Params m2 = [t2] \<and>
              validateUserName H t2 (hub_st w3) = None \<and>
              nameAvailable H t2 (hub_st w3) \<and>
              snd (fst (reserveName H t2 (hub_st w3))) \<longrightarrow>
                (\<exists>ub wf. nickLoop H pref name user w = (Inr (t2, user', ub), wf)))"
proof -
  let ?w1 = "w\<lparr>inbox := rest\<rparr>"
  have rd: "ReadMessage w = (Inr m, ?w1)" using assms(1) by (simp add: ReadMessage_def)
  note f2 = expectUser_frame [OF assms(4)]
  have hs2: "hub_st w2 = hub_st w" using f2 by simp
  obtain ub ok s' where rn: "reserveName H tname (hub_st w) = ((ub, ok), s')"
    by (cases "reserveName H tname (hub_st w)") auto
  define wb where
    "wb = (if \<not> nameAvailable H tname (hub_st w) then w2 else w2\<lparr>hub_st := s'\<rparr>)"
  obtain rw w3 where wm: "WriteMessage (nickTaken H pref tname) wb = (rw, w3)"
    by (cases "WriteMessage (nickTaken H pref tname) wb")
  note f3 = WriteMessage_frame [OF wm]
  have step: "nickLoop H pref name user w = nickLoop H pref tname user' w3"
    using rd assms(2,3,4,5,6) hs2 rn wm
    by (subst nickLoop.simps) (auto simp: Let_def wb_def)
  have wl: "wlog w3 = wlog w @ [nickTaken H pref tname]"
    using f3 f2 by (simp add: wb_def)
  have ib: "inbox w3 = inbox w2" using f3 by (simp add: wb_def)
  have ev: "events w3 = events w" using f3 f2 by (simp add: wb_def)
  have nxt: "\<exists>ub wf. nickLoop H pref name user w = (Inr (t2, user', ub), wf)"
    if h: "tname \<noteq> ''''" "inbox w3 = Inr m2 # rest2" "Command m2 = ''NICK''"
      "Params m2 = [t2]" "validateUserName H t2 (hub_st w3) = None"
      "nameAvailable H t2 (hub_st w3)" "snd (fst (reserveName H t2 (hub_st w3)))"
    for m2 rest2 t2
  proof -
    have rd3: "ReadMessage w3 = (Inr m2, w3\<lparr>inbox := rest2\<rparr>)"
      using h(2) by (simp add: ReadMessage_def)
    have eu3: "expectUser tname user' (w3\<lparr>inbox := rest2\<rparr>) = (Inr user', w3\<lparr>inbox := rest2\<rparr>)"
      using h(1) by (simp add: expectUser_def)
    obtain ub2 ok2 s2 where rn2: "reserveName H t2 (hub_st w3) = ((ub2, ok2), s2)"
      by (cases "reserveName H t2 (hub_st w3)") auto
    have ok2: "ok2" using h(7) rn2 by simp
    have "nickLoop H pref tname user' w3 =
            (Inr (t2, user', ub2), hubCall (\<lambda>_. s2) (EvReserve t2) (w3\<lparr>inbox := rest2\<rparr>))"
      using rd3 eu3 h(3,4,5,6) rn2 ok2
      by (subst nickLoop.simps) (simp add: Let_def)
    with step show ?thesis by auto
  qed
  have c: "Command (nickTaken H pref tname) = ''433''"
    and p: "tname \<in> set (Params (nickTaken H pref tname))"
    by (simp_all add: nickTaken_def)
  from step wl c p ib ev nxt show ?thesis by blast
qed

text \<open>
  Claim C10. When an accepted IRC peer's next message is a PRIVMSG to the hub channel and
  the global chat is disabled, the session loop returns \<open>nil\<close> at once: nothing is handed
  to the chat, nothing is written, the rest of the input is never read, and the deferred
  close ends the peer's connection.
\<close>

theorem privmsg_chat_disabled_ends_session:
  assumes "inbox w = Inr m # rest"
    and "Command m = ''PRIVMSG''" and "Params m = [ircHubChan, text]"
    and "\<not> getGlobalChatEnabled H (hub_st w)"
  shows "serveLoop H p w = (None, w\<lparr>inbox := rest\<rparr>) \<and>
         serveAccepted H p w =
           (None, w\<lparr>inbox := rest, hub_st := peerClose H p (hub_st w),
                   events := events w @ [EvClose p]\<rparr>)"
proof -
  have rd: "ReadMessage w = (Inr m, w\<lparr>inbox := rest\<rparr>)"
    using assms(1) by (simp add: ReadMessage_def)
  have np: "Command m \<noteq> ''PING''" using assms(2) by simp
  have l: "serveLoop H p w = (None, w\<lparr>inbox := rest\<rparr>)"
    using rd np assms(2,3,4) by (subst serveLoop.simps) (simp add: Let_def)
  then show ?thesis by (simp add: serveAccepted_def hubCall_def)
qed

lemmas demo_defs =
  demoHub_def demoWorld_def ircMsg_def demoPeer_def ReadMessage_def WriteMessage_def
  expectUser_def hubCall_def nickTaken_def ircHubChan_def Let_def

theorem handshake_error_releases_once_witness:
  "fst (ircHandshake ((demoHub [])\<lparr>IsPrivate := (\<lambda>s. True)\<rparr>) ''hub'' ''6667''
         \<lparr>Secure = False, TLSVers = 0\<rparr>
         (demoWorld [ircMsg ''NICK'' [''carol''], ircMsg ''USER'' [''c'', ''0'', ''*'', ''c'']] []))
     = Inl ErrServerIsPrivate \<and>
   events (snd (ircHandshake ((demoHub [])\<lparr>IsPrivate := (\<lambda>s. True)\<rparr>) ''hub'' ''6667''
         \<lparr>Secure = False, TLSVers = 0\<rparr>
         (demoWorld [ircMsg ''NICK'' [''carol''], ircMsg ''USER'' [''c'', ''0'', ''*'', ''c'']] [])))
     = [EvReserve ''carol'', EvUnbind ''carol'']"
proof -
  let ?H = "(demoHub [])\<lparr>IsPrivate := (\<lambda>s. True)\<rparr>"
  let ?W = "demoWorld [ircMsg ''NICK'' [''carol''], ircMsg ''USER'' [''c'', ''0'', ''*'', ''c'']] []"
  let ?ci = "\<lparr>Secure = False, TLSVers = 0\<rparr>"
  have nl: "fst (nickLoop ?H \<lparr>Name = ''hub'', User = '''', Host = ''''\<rparr> '''' '''' ?W)
              = Inr (''carol'', ''c'', removeAll ''carol'')"
    by (simp add: nickLoop.simps demo_defs)
  have f: "fst (ircHandshake ?H ''hub'' ''6667'' ?ci ?W) = Inl ErrServerIsPrivate"
    by (simp add: ircHandshake_def nickLoop.simps demo_defs)
  then have h: "ircHandshake ?H ''hub'' ''6667'' ?ci ?W =
                  (Inl ErrServerIsPrivate, snd (ircHandshake ?H ''hub'' ''6667'' ?ci ?W))"
    by (metis prod.collapse)
  have e0: "events ?W = []" by (simp add: demoWorld_def)
  show ?thesis
    using f handshake_error_releases_once [OF h] nl e0 by simp
qed


theorem nick_taken_433_witness:
  "fst (nickLoop (demoHub []) \<lparr>Name = ''hub'', User = '''', Host = ''''\<rparr> '''' ''''
     (demoWorld [ircMsg ''NICK'' [''bob''], ircMsg ''USER'' [''c'', ''0'', ''*'', ''c''],
                 ircMsg ''NICK'' [''carol'']] [''bob'']))
     = Inr (''carol'', ''c'', removeAll ''carol'') \<and>
   wlog (snd (nickLoop (demoHub []) \<lparr>Name = ''hub'', User = '''', Host = ''''\<rparr> '''' ''''
     (demoWorld [ircMsg ''NICK'' [''bob''], ircMsg ''USER'' [''c'', ''0'', ''*'', ''c''],
                 ircMsg ''NICK'' [''carol'']] [''bob''])))
     = [\<lparr>Prefix = Some \<lparr>Name = ''hub'', User = '''', Host = ''''\<rparr>, Command = ''433'',
         Params = [''*'', ''bob'', ''nick taken'']\<rparr>]"
proof -
  let ?H = "demoHub []"
  let ?pref = "\<lparr>Name = ''hub'', User = '''', Host = ''''\<rparr>"
  let ?rest = "[Inr (ircMsg ''USER'' [''c'', ''0'', ''*'', ''c'']), Inr (ircMsg ''NICK'' [''carol''])]"
  let ?W = "demoWorld [ircMsg ''NICK'' [''bob''], ircMsg ''USER'' [''c'', ''0'', ''*'', ''c''],
                 ircMsg ''NICK'' [''carol'']] [''bob'']"
  let ?w2 = "?W\<lparr>inbox := [Inr (ircMsg ''NICK'' [''carol''])]\<rparr>"
  have 1: "inbox ?W = Inr (ircMsg ''NICK'' [''bob'']) # ?rest" by (simp add: demoWorld_def)
  have 2: "Command (ircMsg ''NICK'' [''bob'']) = ''NICK''" by (simp add: ircMsg_def)
  have 3: "Params (ircMsg ''NICK'' [''bob'']) = [''bob'']" by (simp add: ircMsg_def)
  have 4: "expectUser '''' '''' (?W\<lparr>inbox := ?rest\<rparr>) = (Inr ''c'', ?w2)"
    by (simp add: demo_defs)
  have 5: "validateUserName ?H ''bob'' (hub_st ?W) = None" by (simp add: demo_defs)
  have 6: "\<not> nameAvailable ?H ''bob'' (hub_st ?W) \<or>
           \<not> snd (fst (reserveName ?H ''bob'' (hub_st ?W)))" by (simp add: demo_defs)
  from nick_taken_433 [OF 1 2 3 4 5 6, of ?pref] obtain w3 where
    st: "nickLoop ?H ?pref '''' '''' ?W = nickLoop ?H ?pref ''bob'' ''c'' w3"
    and wl: "wlog w3 = wlog ?W @ [nickTaken ?H ?pref ''bob'']"
    by blast
  have r: "nickLoop ?H ?pref '''' '''' ?W =
       (Inr (''carol'', ''c'', removeAll ''carol''),
        \<lparr>inbox = [], wres = [], wlog = [nickTaken ?H ?pref ''bob''],
         hub_st = [''carol'', ''bob''], events = [EvReserve ''carol'']\<rparr>)"
    by (simp add: nickLoop.simps demo_defs)
  show ?thesis using st wl r by (simp add: demo_defs)
qed

theorem privmsg_chat_disabled_ends_session_witness:
  "serveAccepted (demoHub []) demoPeer
     (demoWorld [ircMsg ''PRIVMSG'' [''#hub'', ''hi''], ircMsg ''PING'' [''x'']] [''carol''])
   = (None, \<lparr>inbox = [Inr (ircMsg ''PING'' [''x''])], wres = [], wlog = [],
             hub_st = [], events = [EvClose demoPeer]\<rparr>)"
proof -
  let ?W = "demoWorld [ircMsg ''PRIVMSG'' [''#hub'', ''hi''], ircMsg ''PING'' [''x'']] [''carol'']"
  have 1: "inbox ?W = Inr (ircMsg ''PRIVMSG'' [''#hub'', ''hi'']) # [Inr (ircMsg ''PING'' [''x''])]"
    by (simp add: demoWorld_def)
  have 2: "Command (ircMsg ''PRIVMSG'' [''#hub'', ''hi'']) = ''PRIVMSG''" by (simp add: ircMsg_def)
  have 3: "Params (ircMsg ''PRIVMSG'' [''#hub'', ''hi'']) = [ircHubChan, ''hi'']"
    by (simp add: ircMsg_def ircHubChan_def)
  have 4: "\<not> getGlobalChatEnabled (demoHub []) (hub_st ?W)" by (simp add: demoHub_def)
  show ?thesis
    using privmsg_chat_disabled_ends_session [OF 1 2 3 4, of demoPeer]
    by (simp add: demoHub_def demoWorld_def demoPeer_def)
qed

section \<open>Properties of the connections\<close>

lemma Conn_Close_closed: "closed c \<Longrightarrow> Conn_Close werr rerr c = (None, c)"
  by (simp add: Conn_Close_def)

lemma Conn_Close_closes: "closed (snd (Conn_Close werr rerr c))"
  by (simp add: Conn_Close_def Let_def)

lemma Conn_Close_times_closed:
  "closed c \<Longrightarrow> Conn_Close_times rs c = (replicate (length rs) None, c)"
  by (induction rs) (auto simp: Conn_Close_closed)

lemma waitClosed_done: "closed_ch c \<Longrightarrow> waitClosed c = Some c"
  by (simp add: waitClosed_def)

lemma client_Conn_Close_again:
  "closing c \<Longrightarrow> closed_ch c \<Longrightarrow> client_Conn_Close cerr c = Some (None, c)"
  by (simp add: client_Conn_Close_def waitClosed_done)

lemma client_Conn_Close_post:
  "client_Conn_Close cerr c = Some (r, c') \<Longrightarrow> closing c' \<and> closed_ch c'"
  by (auto simp: client_Conn_Close_def waitClosed_def Let_def split: if_splits option.splits)

lemma client_Conn_Close_times_closed:
  "closing c \<Longrightarrow> closed_ch c \<Longrightarrow>
     client_Conn_Close_times es c = Some (replicate (length es) None, c)"
  by (induction es) (auto simp: client_Conn_Close_again)

lemma client_Conn_Close_fresh: "\<not> closing c \<Longrightarrow> client_Conn_Close cerr c \<noteq> None"
  by (simp add: client_Conn_Close_def waitClosed_def Let_def)

text \<open>
  Claim C2. For the NMDC connection, \<open>K = 1 + length rs\<close> calls of \<open>Close\<close> return what
  the first call alone returns, followed by \<open>nil\<close> for every later call, and leave the
  connection as the first call alone leaves it. The same holds for the ADC client
  connection, whose \<open>Close\<close> returns whenever it is called on a connection that is not yet
  closing; where one call would block for ever, so do \<open>K\<close> calls.
\<close>

theorem close_idempotent:
  "Conn_Close_times ((werr, rerr) # rs) c =
     (fst (Conn_Close werr rerr c) # replicate (length rs) None,
      snd (Conn_Close werr rerr c)) \<and>
   client_Conn_Close_times (cerr # es) a =
     (case client_Conn_Close cerr a of
        None \<Rightarrow> None
      | Some (r, a') \<Rightarrow> Some (r # replicate (length es) None, a')) \<and>
   (\<not> closing a \<longrightarrow> client_Conn_Close cerr a \<noteq> None)"
proof (intro conjI)
  obtain r c' where cl: "Conn_Close werr rerr c = (r, c')" by (cases "Conn_Close werr rerr c")
  have "closed c'" using Conn_Close_closes [of werr rerr c] cl by simp
  then have "Conn_Close_times rs c' = (replicate (length rs) None, c')"
    by (rule Conn_Close_times_closed)
  then show "Conn_Close_times ((werr, rerr) # rs) c =
     (fst (Conn_Close werr rerr c) # replicate (length rs) None,
      snd (Conn_Close werr rerr c))"
    using cl by simp
next
  show "client_Conn_Close_times (cerr # es) a =
     (case client_Conn_Close cerr a of
        None \<Rightarrow> None
      | Some (r, a') \<Rightarrow> Some (r # replicate (length es) None, a'))"
  proof (cases "client_Conn_Close cerr a")
    case None
    then show ?thesis by simp
  next
    case (Some ra)
    obtain r a' where ra: "ra = (r, a')" by (cases ra)
    have "closing a' \<and> closed_ch a'" using client_Conn_Close_post Some ra by blast
    then have "client_Conn_Close_times es a' = Some (replicate (length es) None, a')"
      by (simp add: client_Conn_Close_times_closed)
    then show ?thesis using Some ra by simp
  qed
next
  show "\<not> closing a \<longrightarrow> client_Conn_Close cerr a \<noteq> None"
    by (simp add: client_Conn_Close_fresh)
qed

theorem close_idempotent_witness:
  "Conn_Close_times
     [(Some (IOFailure ''flush''), None), (None, None), (None, None)] freshConn =
     ([Some (IOFailure ''flush''), None, None],
      freshConn\<lparr>closed := True, w_closes := 1, conn_closes := 1, r_closes := 1\<rparr>) \<and>
   client_Conn_Close_times [Some (IOFailure ''reset''), None, None] freshClient =
     Some ([Some (IOFailure ''reset''), None, None],
           \<lparr>closing = True, closed_ch = True, adc_conn_closes = 1\<rparr>) \<and>
   \<not> closing freshClient \<and>
   client_Conn_Close (Some (IOFailure ''reset'')) freshClient \<noteq> None"
  using close_idempotent [of "Some (IOFailure ''flush'')" None "[(None, None), (None, None)]"
      freshConn "Some (IOFailure ''reset'')" "[None, None]" freshClient]
  by (simp add: Conn_Close_def freshConn_def freshClient_def client_Conn_Close_def
      waitClosed_def Let_def)

lemma ReadMsg_acts_alone:
  "map_option the_conn
     (interleave V [ReaderG, ReaderG, ReaderG, ReaderG] (ReadMsg_acts text) ws (unlocked c))
   = Some (snd (readerUnknownEncoding V text c))"
  by (cases "onUnknownEncoding V text c")
     (auto simp: ReadMsg_acts_def unlocked_def doAct_def readerUnknownEncoding_def
           split: option.splits)




lemma protocolToHub_ok:
  assumes "protocolToHub F w = (Inr (sid, mutual), w')"
  shows "\<exists>hubFeatures rest.
           adc_inbox w = Inr (Supported hubFeatures) # Inr (SIDAssign sid) # rest \<and>
           mutual = Intersect F ourFeatures hubFeatures \<and>
           (IsSet F mutual FeaBASE \<or> IsSet F mutual FeaBAS0) \<and> IsSet F mutual FeaTIGR"
  using assms
  by (auto simp: protocolToHub_def WriteHubMsg_def Flush_def nextWriteResult_def
      ReadInfoMsg_def Let_def
      split: list.splits option.splits sum.splits adc_msg.splits if_splits prod.splits)

lemma protocolToHub_missing:
  assumes "adc_inbox w = Inr (Supported hubFeatures) # rest"
    and "\<not> (IsSet F (Intersect F ourFeatures hubFeatures) FeaBASE \<or>
            IsSet F (Intersect F ourFeatures hubFeatures) FeaBAS0) \<or>
         \<not> IsSet F (Intersect F ourFeatures hubFeatures) FeaTIGR"
  shows "\<exists>e. fst (protocolToHub F w) = Inl e"
  using assms
  by (auto simp: protocolToHub_def WriteHubMsg_def Flush_def nextWriteResult_def
      ReadInfoMsg_def Let_def
      split: list.splits option.splits sum.splits adc_msg.splits if_splits prod.splits)

text \<open>
  Claim C5. When \<open>protocolToHub\<close> returns a session identifier, the hub answered with a
  SUP and then a SID, and the intersection of the client's features with the hub's has
  BASE or BAS0 set and has TIGR set. When the hub's answer is a SUP whose intersection
  with the client's features lacks both BASE and BAS0, or lacks TIGR, the function
  returns an error, and with it no session identifier.
\<close>

theorem protocol_needs_base_and_tigr:
  "(protocolToHub F w = (Inr (sid, mutual), w') \<longrightarrow>
      (\<exists>hubFeatures rest.
         adc_inbox w = Inr (Supported hubFeatures) # Inr (SIDAssign sid) # rest \<and>
         mutual = Intersect F ourFeatures hubFeatures \<and>
         (IsSet F mutual FeaBASE \<or> IsSet F mutual FeaBAS0) \<and> IsSet F mutual FeaTIGR)) \<and>
   (adc_inbox w = Inr (Supported hubF) # rest' \<and>
    (\<not> (IsSet F (Intersect F ourFeatures hubF) FeaBASE \<or>
         IsSet F (Intersect F ourFeatures hubF) FeaBAS0) \<or>
     \<not> IsSet F (Intersect F ourFeatures hubF) FeaTIGR) \<longrightarrow>
      (\<exists>e. fst (protocolToHub F w) = Inl e))"
  using protocolToHub_ok [of F w sid mutual w'] protocolToHub_missing [of w hubF rest' F]
  by blast

theorem protocol_needs_base_and_tigr_witness:
  "fst (protocolToHub setFeatures
          (hubSays [Supported [FeaBASE \<mapsto> True, FeaTIGR \<mapsto> True], SIDAssign 7])) =
     Inr (7, Intersect setFeatures ourFeatures [FeaBASE \<mapsto> True, FeaTIGR \<mapsto> True]) \<and>
   IsSet setFeatures (Intersect setFeatures ourFeatures [FeaBASE \<mapsto> True, FeaTIGR \<mapsto> True])
     FeaTIGR \<and>
   fst (protocolToHub setFeatures (hubSays [Supported [FeaBASE \<mapsto> True], SIDAssign 7])) =
     Inl HubNoTIGR"
proof -
  let ?ok = "hubSays [Supported [FeaBASE \<mapsto> True, FeaTIGR \<mapsto> True], SIDAssign 7]"
  let ?bad = "hubSays [Supported [FeaBASE \<mapsto> True], SIDAssign 7]"
  let ?m = "Intersect setFeatures ourFeatures [FeaBASE \<mapsto> True, FeaTIGR \<mapsto> True]"
  have f: "fst (protocolToHub setFeatures ?ok) = Inr (7, ?m)"
    by (simp add: protocolToHub_def WriteHubMsg_def Flush_def nextWriteResult_def
        ReadInfoMsg_def hubSays_def setFeatures_def ourFeatures_def Let_def)
  then have h: "protocolToHub setFeatures ?ok = (Inr (7, ?m), snd (protocolToHub setFeatures ?ok))"
    by (metis prod.collapse)
  have b: "adc_inbox ?bad = Inr (Supported [FeaBASE \<mapsto> True]) # [Inr (SIDAssign 7)] \<and>
    (\<not> (IsSet setFeatures (Intersect setFeatures ourFeatures [FeaBASE \<mapsto> True]) FeaBASE \<or>
         IsSet setFeatures (Intersect setFeatures ourFeatures [FeaBASE \<mapsto> True]) FeaBAS0) \<or>
     \<not> IsSet setFeatures (Intersect setFeatures ourFeatures [FeaBASE \<mapsto> True]) FeaTIGR)"
    by (simp add: hubSays_def setFeatures_def ourFeatures_def)
  have g: "fst (protocolToHub setFeatures ?bad) = Inl HubNoTIGR"
    by (simp add: protocolToHub_def WriteHubMsg_def Flush_def nextWriteResult_def
        ReadInfoMsg_def hubSays_def setFeatures_def ourFeatures_def Let_def)
  note a = protocol_needs_base_and_tigr [of setFeatures ?ok 7 ?m "snd (protocolToHub setFeatures ?ok)",
      THEN conjunct1, rule_format, OF h]
  note c = protocol_needs_base_and_tigr [of setFeatures ?bad _ _ _ "[FeaBASE \<mapsto> True]"
      "[Inr (SIDAssign 7)]", THEN conjunct2, rule_format, OF b]
  from a have "IsSet setFeatures ?m FeaTIGR" by blast
  with f g c show ?thesis by simp
qed

end
